theory Spec2Isabelle
  imports Complex_Main
begin

section \<open>JavaScript values reaching the handlers\<close>

text \<open>
  The handlers of \<^verbatim>\<open>src/gateway/server-methods/terminal.ts\<close> receive untyped request
  parameters and inspect them with \<^verbatim>\<open>typeof\<close>, truthiness tests, \<^verbatim>\<open>Math.floor\<close> and
  \<^verbatim>\<open>Math.max\<close>. A JavaScript number is an IEEE double: a finite value (always a rational),
  one of the two infinities, or NaN. \<^verbatim>\<open>Math.floor\<close> of a finite double is again a double
  and \<^verbatim>\<open>Math.max\<close> returns one of its arguments, so both are exact and rounding plays
  no part; finite doubles are embedded as rationals. The two zeros are identified: the
  code only feeds a zero to \<^verbatim>\<open>Math.max(1, _)\<close>, which answers 1 for either.
\<close>

datatype jsnum = Fin rat | PosInf | NegInf | NaN

fun Math_floor :: "jsnum \<Rightarrow> jsnum" where
  "Math_floor (Fin q) = Fin (of_int \<lfloor>q\<rfloor>)"
| "Math_floor PosInf = PosInf"
| "Math_floor NegInf = NegInf"
| "Math_floor NaN = NaN"

fun Math_max :: "jsnum \<Rightarrow> jsnum \<Rightarrow> jsnum" where
  "Math_max NaN y = NaN"
| "Math_max x NaN = NaN"
| "Math_max PosInf y = PosInf"
| "Math_max x PosInf = PosInf"
| "Math_max NegInf y = y"
| "Math_max x NegInf = x"
| "Math_max (Fin a) (Fin b) = Fin (max a b)"

datatype jsval = JUndefined | JNull | JBool bool | JNum jsnum | JStr string | JObject

datatype jstype = TUndefined | TObject | TBoolean | TNumber | TString

fun typeof :: "jsval \<Rightarrow> jstype" where
  "typeof JUndefined = TUndefined"
| "typeof JNull = TObject"
| "typeof (JBool b) = TBoolean"
| "typeof (JNum n) = TNumber"
| "typeof (JStr s) = TString"
| "typeof JObject = TObject"

text \<open>Truthiness, as tested by \<^verbatim>\<open>!sessionId\<close>.\<close>

fun truthy :: "jsval \<Rightarrow> bool" where
  "truthy JUndefined = False"
| "truthy JNull = False"
| "truthy (JBool b) = b"
| "truthy (JNum n) = (n \<noteq> Fin 0 \<and> n \<noteq> NaN)"
| "truthy (JStr s) = (s \<noteq> [])"
| "truthy JObject = True"

text \<open>
  The request parameters: one untyped object, of which each handler reads the
  properties it names. A property that is missing reads as \<open>JUndefined\<close>.
\<close>

record params =
  sessionId :: jsval
  data :: jsval
  cols :: jsval
  rows :: jsval

section \<open>The terminal session manager\<close>

subsection \<open>State\<close>

text \<open>
  \<^verbatim>\<open>interface TerminalSession { id; pty; idleTimer }\<close>. The field \<^verbatim>\<open>id\<close> is named
  \<open>id_t\<close> here. A session is a mutable object shared by the module variable
  \<^verbatim>\<open>activeSession\<close> and by the closures of its timer and of its PTY subscriptions, so
  sessions live in a store and are passed by reference (a store address). PTY handles
  and timer handles are numbers handed out by the runtime.
\<close>

record TerminalSession =
  id_t :: string
  pty :: nat
  idleTimer :: nat

text \<open>
  The two closures given to \<^verbatim>\<open>setTimeout\<close>: \<^verbatim>\<open>() => {}\<close> and
  \<^verbatim>\<open>() => { destroySession(session, context) }\<close>, the latter with the session it captures.
\<close>

datatype timer_callback = Noop | IdleExpire nat

text \<open>
  What the runtime knows of a PTY: whether its shell still runs, and the sessions
  captured by the callbacks registered with \<^verbatim>\<open>onData\<close> and \<^verbatim>\<open>onExit\<close>.
\<close>

record pty_state =
  alive :: bool
  onData :: "nat option"
  onExit :: "nat option"

datatype event = TerminalOutput string string | TerminalClosed string

text \<open>
  The calls made on the collaborators, in the order they happen: PTYs spawned, killed,
  written and resized, and events handed to \<^verbatim>\<open>context.broadcast\<close> (always with
  \<^verbatim>\<open>dropIfSlow: true\<close>).
\<close>

datatype effect =
    Spawned jsnum jsnum nat
  | PtyKill nat
  | PtyWrite nat string
  | PtyResize nat jsnum jsnum
  | Broadcast event

record world =
  activeSession :: "nat option"
  sessions :: "nat \<Rightarrow> TerminalSession"
  nextRef :: nat
  timers :: "(nat \<times> nat \<times> timer_callback) list"
  nextTimer :: nat
  clock :: nat
  ptys :: "nat \<Rightarrow> pty_state"
  nextPty :: nat
  effects :: "effect list"

text \<open>The module as loaded: \<^verbatim>\<open>let activeSession = null\<close>, nothing pending, nothing spawned.\<close>

definition initial_world :: world where
  "initial_world =
     \<lparr>activeSession = None,
      sessions = (\<lambda>_. \<lparr>id_t = [], pty = 0, idleTimer = 0\<rparr>),
      nextRef = 0,
      timers = [],
      nextTimer = 0,
      clock = 0,
      ptys = (\<lambda>_. \<lparr>alive = False, onData = None, onExit = None\<rparr>),
      nextPty = 0,
      effects = []\<rparr>"

subsection \<open>Responses\<close>

text \<open>
  \<^verbatim>\<open>respond(ok, payload?, error?)\<close> is called exactly once on every path on which a
  handler returns; the model returns its arguments. \<^verbatim>\<open>errorShape(code, message)\<close> is the
  pair. \<open>Uncaught\<close> is a handler left by an exception it does not catch, before any call
  of \<^verbatim>\<open>respond\<close>, with the text of what was thrown.
\<close>

datatype ErrorCodes = UNAVAILABLE | INVALID_REQUEST

datatype payload = OpenResult string jsnum jsnum

datatype response =
    Respond bool "payload option" "(ErrorCodes \<times> string) option"
  | Uncaught string

definition errorShape :: "ErrorCodes \<Rightarrow> string \<Rightarrow> ErrorCodes \<times> string" where
  "errorShape code message = (code, message)"

subsection \<open>Runtime primitives\<close>

definition IDLE_TIMEOUT_MS :: nat where
  "IDLE_TIMEOUT_MS = 10 * 60 * 1000"

text \<open>
  \<^verbatim>\<open>setTimeout(cb, delay)\<close> registers the callback to run once the clock has reached
  \<open>clock + delay\<close> and returns a fresh handle; \<^verbatim>\<open>clearTimeout(h)\<close> removes it, and is a
  no-op on a handle that is not pending.
\<close>

definition setTimeout :: "timer_callback \<Rightarrow> nat \<Rightarrow> world \<Rightarrow> nat \<times> world" where
  "setTimeout cb delay w =
     (nextTimer w,
      w\<lparr>timers := timers w @ [(nextTimer w, clock w + delay, cb)],
        nextTimer := Suc (nextTimer w)\<rparr>)"

definition clearTimeout :: "nat \<Rightarrow> world \<Rightarrow> world" where
  "clearTimeout h w = w\<lparr>timers := filter (\<lambda>t. fst t \<noteq> h) (timers w)\<rparr>"

text \<open>
  \<^verbatim>\<open>try { session.pty.kill() } catch { }\<close>: the shell is dead afterwards whether the
  call returns or throws because it was dead already; the exception goes nowhere.
\<close>

definition pty_kill :: "nat \<Rightarrow> world \<Rightarrow> world" where
  "pty_kill p w =
     w\<lparr>ptys := (ptys w)(p := (ptys w p)\<lparr>alive := False\<rparr>),
       effects := effects w @ [PtyKill p]\<rparr>"

text \<open>
  \<^verbatim>\<open>pty.write\<close> and \<^verbatim>\<open>pty.resize\<close> are calls on the collaborator, and the handlers do
  not guard them. \<^verbatim>\<open>pty.write\<close> is taken to return. \<^verbatim>\<open>pty.resize\<close> may throw: the
  PTY library refuses dimensions that are not positive and finite, which after the clamp
  of the handler leaves NaN and +Infinity. Whether the call returns or throws comes from
  outside, as the outcome of \<^verbatim>\<open>spawn\<close> does; \<open>pty_resize\<close> is the call that returns.
\<close>

datatype call_outcome = Returns | Throws string

definition pty_write :: "nat \<Rightarrow> string \<Rightarrow> world \<Rightarrow> world" where
  "pty_write p d w = w\<lparr>effects := effects w @ [PtyWrite p d]\<rparr>"

definition pty_resize :: "nat \<Rightarrow> jsnum \<Rightarrow> jsnum \<Rightarrow> world \<Rightarrow> world" where
  "pty_resize p c r w = w\<lparr>effects := effects w @ [PtyResize p c r]\<rparr>"

definition broadcast :: "event \<Rightarrow> world \<Rightarrow> world" where
  "broadcast e w = w\<lparr>effects := effects w @ [Broadcast e]\<rparr>"

subsection \<open>\<^verbatim>\<open>resetIdleTimer\<close> and \<^verbatim>\<open>destroySession\<close>\<close>

definition resetIdleTimer :: "nat \<Rightarrow> world \<Rightarrow> world" where
  "resetIdleTimer r w =
     (let w1 = clearTimeout (idleTimer (sessions w r)) w;
          (h, w2) = setTimeout (IdleExpire r) IDLE_TIMEOUT_MS w1
      in w2\<lparr>sessions := (sessions w2)(r := (sessions w2 r)\<lparr>idleTimer := h\<rparr>)\<rparr>)"

definition destroySession :: "nat \<Rightarrow> world \<Rightarrow> world" where
  "destroySession r w =
     (let w1 = clearTimeout (idleTimer (sessions w r)) w;
          w2 = pty_kill (pty (sessions w1 r)) w1;
          w3 = (case activeSession w2 of
                  None \<Rightarrow> w2
                | Some a \<Rightarrow>
                    if id_t (sessions w2 a) = id_t (sessions w2 r)
                    then w2\<lparr>activeSession := None\<rparr> else w2)
      in broadcast (TerminalClosed (id_t (sessions w3 r))) w3)"

subsection \<open>The handlers\<close>

text \<open>
  \<^verbatim>\<open>terminal.open\<close>. Two things come from outside: the value of
  \<^verbatim>\<open>crypto.randomUUID()\<close> and whether \<^verbatim>\<open>spawn\<close> returns a handle or throws (with the
  text of what it threw).
\<close>

datatype spawn_outcome = SpawnOk | SpawnThrows string

text \<open>
  The local constants \<^verbatim>\<open>cols\<close> and \<^verbatim>\<open>rows\<close> of the handler:
  \<^verbatim>\<open>typeof params.cols === "number" ? Math.max(1, Math.floor(params.cols)) : 80\<close>, and the
  same for the rows with 24.
\<close>

definition open_cols :: "params \<Rightarrow> jsnum" where
  "open_cols p = (case cols p of JNum n \<Rightarrow> Math_max (Fin 1) (Math_floor n) | _ \<Rightarrow> Fin 80)"

definition open_rows :: "params \<Rightarrow> jsnum" where
  "open_rows p = (case rows p of JNum n \<Rightarrow> Math_max (Fin 1) (Math_floor n) | _ \<Rightarrow> Fin 24)"

definition terminal_open :: "params \<Rightarrow> string \<Rightarrow> spawn_outcome \<Rightarrow> world \<Rightarrow> response \<times> world" where
  "terminal_open p uuid so w =
     (let w1 = (case activeSession w of None \<Rightarrow> w | Some a \<Rightarrow> destroySession a w);
          c = open_cols p;
          r = open_rows p
      in case so of
           SpawnThrows err \<Rightarrow>
             (Respond False None (Some (errorShape UNAVAILABLE (''failed to spawn PTY: '' @ err))),
              w1)
         | SpawnOk \<Rightarrow>
             (let h = nextPty w1;
                  w2 = w1\<lparr>ptys := (ptys w1)(h := \<lparr>alive = True, onData = None, onExit = None\<rparr>),
                          nextPty := Suc h,
                          effects := effects w1 @ [Spawned c r h]\<rparr>;
                  (t0, w3) = setTimeout Noop 0 w2;
                  s = nextRef w3;
                  w4 = w3\<lparr>sessions := (sessions w3)(s := \<lparr>id_t = uuid, pty = h, idleTimer = t0\<rparr>),
                          nextRef := Suc s,
                          activeSession := Some s\<rparr>;
                  w5 = resetIdleTimer s w4;
                  w6 = w5\<lparr>ptys := (ptys w5)(h := (ptys w5 h)\<lparr>onData := Some s, onExit := Some s\<rparr>)\<rparr>
              in (Respond True (Some (OpenResult uuid c r)) None, w6)))"

definition terminal_input :: "params \<Rightarrow> world \<Rightarrow> response \<times> world" where
  "terminal_input p w =
     (case (truthy (sessionId p), data p) of
        (True, JStr d) \<Rightarrow>
          (case activeSession w of
             None \<Rightarrow>
               (Respond False None (Some (errorShape INVALID_REQUEST ''no active terminal session'')), w)
           | Some a \<Rightarrow>
               if JStr (id_t (sessions w a)) \<noteq> sessionId p
               then (Respond False None
                       (Some (errorShape INVALID_REQUEST ''no active terminal session'')), w)
               else (let w1 = pty_write (pty (sessions w a)) d w;
                         w2 = resetIdleTimer a w1
                     in (Respond True None None, w2)))
      | _ \<Rightarrow>
          (Respond False None (Some (errorShape INVALID_REQUEST ''sessionId and data required'')), w))"

text \<open>
  \<^verbatim>\<open>terminal.resize\<close>. The outcome of \<^verbatim>\<open>pty.resize\<close> at line 115 comes from outside. When
  it throws, the exception leaves the handler: the lines after it, \<^verbatim>\<open>resetIdleTimer\<close> and
  \<^verbatim>\<open>respond(true)\<close>, do not run.
\<close>

definition terminal_resize :: "params \<Rightarrow> call_outcome \<Rightarrow> world \<Rightarrow> response \<times> world" where
  "terminal_resize p ro w =
     (case (truthy (sessionId p), cols p, rows p) of
        (True, JNum c, JNum r) \<Rightarrow>
          (case activeSession w of
             None \<Rightarrow>
               (Respond False None (Some (errorShape INVALID_REQUEST ''no active terminal session'')), w)
           | Some a \<Rightarrow>
               if JStr (id_t (sessions w a)) \<noteq> sessionId p
               then (Respond False None
                       (Some (errorShape INVALID_REQUEST ''no active terminal session'')), w)
               else (case ro of
                       Throws err \<Rightarrow> (Uncaught err, w)
                     | Returns \<Rightarrow>
                         (let w1 = pty_resize (pty (sessions w a))
                                     (Math_max (Fin 1) (Math_floor c))
                                     (Math_max (Fin 1) (Math_floor r)) w;
                              w2 = resetIdleTimer a w1
                          in (Respond True None None, w2))))
      | _ \<Rightarrow>
          (Respond False None
             (Some (errorShape INVALID_REQUEST ''sessionId, cols, and rows required'')), w))"

definition terminal_close :: "params \<Rightarrow> world \<Rightarrow> response \<times> world" where
  "terminal_close p w =
     (if \<not> truthy (sessionId p)
      then (Respond False None (Some (errorShape INVALID_REQUEST ''sessionId required'')), w)
      else (case activeSession w of
              None \<Rightarrow> (Respond True None None, w)
            | Some a \<Rightarrow>
                if JStr (id_t (sessions w a)) \<noteq> sessionId p
                then (Respond True None None, w)
                else (Respond True None None, destroySession a w)))"

definition cleanupTerminalSessions :: "world \<Rightarrow> world" where
  "cleanupTerminalSessions w =
     (case activeSession w of
        None \<Rightarrow> w
      | Some a \<Rightarrow>
          (let w1 = clearTimeout (idleTimer (sessions w a)) w;
               w2 = pty_kill (pty (sessions w1 a)) w1
           in w2\<lparr>activeSession := None\<rparr>))"

subsection \<open>Events raised by the runtime\<close>

text \<open>
  The callbacks registered in \<^verbatim>\<open>terminal.open\<close>, run when the PTY produces output or
  its shell exits. Both read the session they captured.
\<close>

definition pty_data :: "nat \<Rightarrow> string \<Rightarrow> world \<Rightarrow> world" where
  "pty_data h d w =
     (case onData (ptys w h) of
        None \<Rightarrow> w
      | Some s \<Rightarrow> broadcast (TerminalOutput (id_t (sessions w s)) d) w)"

definition pty_exit :: "nat \<Rightarrow> world \<Rightarrow> world" where
  "pty_exit h w =
     (let w0 = w\<lparr>ptys := (ptys w)(h := (ptys w h)\<lparr>alive := False\<rparr>)\<rparr>
      in case onExit (ptys w0 h) of
           None \<Rightarrow> w0
         | Some s \<Rightarrow>
             (case activeSession w0 of
                None \<Rightarrow> w0
              | Some a \<Rightarrow>
                  if id_t (sessions w0 a) = id_t (sessions w0 s)
                  then (let w1 = clearTimeout (idleTimer (sessions w0 s)) w0;
                            w2 = w1\<lparr>activeSession := None\<rparr>
                        in broadcast (TerminalClosed (id_t (sessions w2 s))) w2)
                  else w0))"

text \<open>
  The event loop left alone until the clock reads \<open>t\<close>: every timer that is due by then
  runs, earliest first, unless an earlier callback cleared it. No callback of this
  module sets a timer, so the timers pending at the start are all there is to run.
\<close>

fun run_callback :: "timer_callback \<Rightarrow> world \<Rightarrow> world" where
  "run_callback Noop w = w"
| "run_callback (IdleExpire s) w = destroySession s w"

fun fire_due :: "nat \<Rightarrow> (nat \<times> nat \<times> timer_callback) list \<Rightarrow> world \<Rightarrow> world" where
  "fire_due t [] w = w"
| "fire_due t ((h, due, cb) # ps) w =
     (if due \<le> t \<and> (h, due, cb) \<in> set (timers w)
      then fire_due t ps
             (run_callback cb
                (w\<lparr>timers := filter (\<lambda>x. fst x \<noteq> h) (timers w), clock := max (clock w) due\<rparr>))
      else fire_due t ps w)"

definition advance :: "nat \<Rightarrow> world \<Rightarrow> world" where
  "advance t w =
     (let w' = fire_due t (sort_key (\<lambda>x. fst (snd x)) (timers w)) w
      in w'\<lparr>clock := max (clock w') t\<rparr>)"

section \<open>The restart coordinator\<close>

text \<open>
  \<^verbatim>\<open>src/gateway/server-reload-handlers.ts\<close> is not among the sources; its test
  \<^verbatim>\<open>server-reload-handlers.test.ts\<close> is. The plan is the test's \<^verbatim>\<open>makePlan\<close> object;
  the configuration snapshot is opaque.
\<close>

record GatewayReloadPlan =
  restartGateway :: bool
  restartReasons :: "string list"
  changedPaths :: "string list"
  reloadHooks :: bool
  restartHeartbeat :: bool
  restartCron :: bool
  restartBrowserControl :: bool
  restartGmailWatcher :: bool
  restartChannels :: "string set"
  hotReasons :: "string list"
  noopPaths :: "string list"

text \<open>
  Modelled from the spec: the state of the restart coordinator created by
  \<^verbatim>\<open>createGatewayReloadHandlers\<close> (absent). \<open>deferred\<close> is the Deferred Restart State,
  empty or holding the most recently requested (plan, config) pair; \<open>signals\<close> lists the
  self-restart signals emitted so far, each with the plan and configuration it was
  emitted for.
\<close>

record 'c coordinator =
  deferred :: "(GatewayReloadPlan \<times> 'c) option"
  signals :: "(GatewayReloadPlan \<times> 'c) list"

text \<open>
  Modelled from the spec: the coordinator as \<^verbatim>\<open>createGatewayReloadHandlers\<close> (absent)
  returns it. The Deferred Restart State is "created on the first deferred
  \<^verbatim>\<open>requestGatewayRestart\<close> call", so it starts empty, and nothing has been signalled.
\<close>

definition new_coordinator :: "'c coordinator" where
  "new_coordinator = \<lparr>deferred = None, signals = []\<rparr>"

text \<open>
  Modelled from the spec: \<^verbatim>\<open>requestGatewayRestart(plan, config)\<close> of the absent
  \<^verbatim>\<open>server-reload-handlers.ts\<close>. "If \<^verbatim>\<open>plan.restartGateway\<close> is false, no-op. If true:
  query the conflict gate; if not active, emit the self-restart signal immediately and
  return. If active, store (plan, config) as the Deferred Restart State (overwriting any
  previously held value) and return without signaling." The first argument is the answer
  of the gate \<^verbatim>\<open>hasActiveWizard()\<close> at the time of the call.
\<close>

definition requestGatewayRestart ::
  "bool \<Rightarrow> GatewayReloadPlan \<Rightarrow> 'c \<Rightarrow> 'c coordinator \<Rightarrow> 'c coordinator" where
  "requestGatewayRestart hasActiveWizard plan config st =
     (if \<not> restartGateway plan then st
      else if \<not> hasActiveWizard then st\<lparr>signals := signals st @ [(plan, config)]\<rparr>
      else st\<lparr>deferred := Some (plan, config)\<rparr>)"

text \<open>
  Modelled from the spec: \<^verbatim>\<open>flushDeferredRestart()\<close> of the absent
  \<^verbatim>\<open>server-reload-handlers.ts\<close>. "If the Deferred Restart State is empty, no-op.
  Otherwise, clear the state and emit the self-restart signal exactly once using the held
  plan/config." The gate is not queried again.
\<close>

definition flushDeferredRestart :: "'c coordinator \<Rightarrow> 'c coordinator" where
  "flushDeferredRestart st =
     (case deferred st of
        None \<Rightarrow> st
      | Some held \<Rightarrow> st\<lparr>deferred := None, signals := signals st @ [held]\<rparr>)"

text \<open>The test's \<^verbatim>\<open>makePlan(overrides)\<close> with the restart reasons overridden.\<close>

definition makePlan :: "string list \<Rightarrow> GatewayReloadPlan" where
  "makePlan reasons =
     \<lparr>restartGateway = True,
      restartReasons = reasons,
      changedPaths = [''gateway.mode''],
      reloadHooks = False,
      restartHeartbeat = False,
      restartCron = False,
      restartBrowserControl = False,
      restartGmailWatcher = False,
      restartChannels = {},
      hotReasons = [],
      noopPaths = []\<rparr>"

section \<open>Notions used to state the properties\<close>

text \<open>Lines 38 to 40 of the handler: the session found active is destroyed first.\<close>

definition close_previous :: "world \<Rightarrow> world" where
  "close_previous w = (case activeSession w of None \<Rightarrow> w | Some a \<Rightarrow> destroySession a w)"

text \<open>
  Concrete inputs on which the properties are exercised: a request with a zero and a
  negative fractional dimension, and the world after one successful
  \<^verbatim>\<open>terminal.open\<close> from the initial one, whose session has the id \<open>''a''\<close>.
\<close>

definition example_params :: params where
  "example_params =
     \<lparr>sessionId = JStr ''a'', data = JStr ''ls'', cols = JNum (Fin 0), rows = JNum (Fin (- 5 / 2))\<rparr>"

definition example_open_world :: world where
  "example_open_world = snd (terminal_open example_params ''a'' SpawnOk initial_world)"

text \<open>A sequence of \<^verbatim>\<open>terminal.open\<close> calls, each with its request, the UUID drawn and
  the outcome of its spawn, run one after the other.\<close>

fun opens :: "(params \<times> string \<times> spawn_outcome) list \<Rightarrow> world \<Rightarrow> world" where
  "opens [] w = w"
| "opens ((p, uuid, so) # cs) w = opens cs (snd (terminal_open p uuid so w))"

text \<open>
  At most one session exists: whatever belongs to a session is the active session's.
  Every PTY whose shell runs is the PTY of the session in \<^verbatim>\<open>activeSession\<close>; every
  pending timer is that session's idle timer, set to destroy it, and at most one is
  pending; and the handle of the active session's PTY is one the runtime has handed out.
\<close>

definition session_inv :: "world \<Rightarrow> bool" where
  "session_inv w \<longleftrightarrow>
     (\<forall>h. alive (ptys w h) \<longrightarrow> (\<exists>a. activeSession w = Some a \<and> pty (sessions w a) = h)) \<and>
     (\<forall>t \<in> set (timers w).
        \<exists>a. activeSession w = Some a \<and> fst t = idleTimer (sessions w a) \<and>
            snd (snd t) = IdleExpire a) \<and>
     length (timers w) \<le> 1 \<and>
     (\<forall>a. activeSession w = Some a \<longrightarrow> pty (sessions w a) < nextPty w)"

text \<open>
  What the store keeps true besides: the active session is an allocated one, allocated
  sessions have different ids, and the session captured by the \<^verbatim>\<open>onExit\<close> callback of a
  PTY is an allocated session whose PTY it is.
\<close>

definition store_inv :: "world \<Rightarrow> bool" where
  "store_inv w \<longleftrightarrow>
     (\<forall>a. activeSession w = Some a \<longrightarrow> a < nextRef w) \<and>
     (\<forall>r r'. r < nextRef w \<and> r' < nextRef w \<and> id_t (sessions w r) = id_t (sessions w r')
        \<longrightarrow> r = r') \<and>
     (\<forall>h s. onExit (ptys w h) = Some s \<longrightarrow> s < nextRef w \<and> pty (sessions w s) = h)"

text \<open>
  The states the module can be in: from the initial one, by any request to any handler,
  any output or exit of a PTY, any stretch of time left to the event loop, and the
  cleanup at shutdown, in any order. \<^verbatim>\<open>crypto.randomUUID()\<close> is taken never to return the
  id of a session allocated before.
\<close>

inductive reachable :: "world \<Rightarrow> bool" where
  reach_initial: "reachable initial_world"
| reach_open:
    "reachable w \<Longrightarrow> \<forall>r. r < nextRef w \<longrightarrow> id_t (sessions w r) \<noteq> uuid \<Longrightarrow>
       reachable (snd (terminal_open p uuid so w))"
| reach_input: "reachable w \<Longrightarrow> reachable (snd (terminal_input p w))"
| reach_resize: "reachable w \<Longrightarrow> reachable (snd (terminal_resize p ro w))"
| reach_close: "reachable w \<Longrightarrow> reachable (snd (terminal_close p w))"
| reach_data: "reachable w \<Longrightarrow> reachable (pty_data h d w)"
| reach_exit: "reachable w \<Longrightarrow> reachable (pty_exit h w)"
| reach_advance: "reachable w \<Longrightarrow> reachable (advance t w)"
| reach_cleanup: "reachable w \<Longrightarrow> reachable (cleanupTerminalSessions w)"

section \<open>Properties of the restart coordinator\<close>

subsection \<open>The coordinator against its test file\<close>

text \<open>
  The six cases of \<^verbatim>\<open>describe("wizard restart deferral")\<close>; \<^verbatim>\<open>sigusr1Emitted\<close> is true when
  a signal has been emitted since it was last cleared.
\<close>

lemma test_defer_when_wizard_active:
  "signals (requestGatewayRestart True (makePlan [''gateway.mode changed'']) cfg new_coordinator)
     = []"
  by (simp add: requestGatewayRestart_def makePlan_def new_coordinator_def)

lemma test_fire_when_no_wizard:
  "signals (requestGatewayRestart False (makePlan [''gateway.mode changed'']) cfg new_coordinator)
     \<noteq> []"
  by (simp add: requestGatewayRestart_def makePlan_def new_coordinator_def)

lemma test_flush_after_wizard_completes:
  "signals (flushDeferredRestart
      (requestGatewayRestart True (makePlan [''gateway.mode changed'']) cfg new_coordinator))
     \<noteq> []"
  by (simp add: requestGatewayRestart_def flushDeferredRestart_def makePlan_def
      new_coordinator_def)

lemma test_flush_with_nothing_deferred:
  "signals (flushDeferredRestart (new_coordinator :: 'c coordinator)) = []"
  by (simp add: flushDeferredRestart_def new_coordinator_def)

lemma test_multiple_deferred:
  "signals (requestGatewayRestart True (makePlan [''second change'']) cfg
      (requestGatewayRestart True (makePlan [''first change'']) cfg new_coordinator)) = []"
  by (simp add: requestGatewayRestart_def makePlan_def new_coordinator_def)

lemma test_fire_once_after_flush:
  "length (signals (flushDeferredRestart (flushDeferredRestart
      (requestGatewayRestart True (makePlan [''gateway.mode changed'']) cfg
        (requestGatewayRestart True (makePlan [''gateway.mode changed'']) cfg
           new_coordinator))))) = 1"
  by (simp add: requestGatewayRestart_def flushDeferredRestart_def makePlan_def
      new_coordinator_def)

subsection \<open>Properties of the coordinator\<close>

text \<open>
  C3. A restart requested with \<open>restartGateway\<close> set while the conflict gate answers
  true emits no signal during that call: the list of signals is as before and the pair
  (plan, config) is held. A later \<open>flushDeferredRestart\<close> emits the signal, once, for
  exactly the held plan and configuration, and empties the held state.
\<close>

theorem restart_deferred_while_gate_active:
  "restartGateway plan \<Longrightarrow>
     signals (requestGatewayRestart True plan cfg st) = signals st \<and>
     deferred (requestGatewayRestart True plan cfg st) = Some (plan, cfg) \<and>
     signals (flushDeferredRestart (requestGatewayRestart True plan cfg st))
       = signals st @ [(plan, cfg)] \<and>
     deferred (flushDeferredRestart (requestGatewayRestart True plan cfg st)) = None"
  by (simp add: requestGatewayRestart_def flushDeferredRestart_def)

theorem restart_deferred_while_gate_active_witness:
  "restartGateway (makePlan [''gateway.mode changed'']) \<and>
   signals (requestGatewayRestart True (makePlan [''gateway.mode changed'']) () new_coordinator)
     = [] \<and>
   signals (flushDeferredRestart
      (requestGatewayRestart True (makePlan [''gateway.mode changed'']) () new_coordinator))
     = [(makePlan [''gateway.mode changed''], ())]"
  using restart_deferred_while_gate_active
          [of "makePlan [''gateway.mode changed'']" "()" new_coordinator]
  by (simp add: makePlan_def new_coordinator_def)




text \<open>
  C5. Two restarts requested with \<open>restartGateway\<close> set while the gate answers true: the
  second replaces the held pair (the state holds one pair, the second), neither call
  signals, and one \<open>flushDeferredRestart\<close> afterwards emits exactly one signal, for the
  second plan and configuration.
\<close>

theorem deferred_restart_latest_wins:
  "restartGateway plan1 \<Longrightarrow> restartGateway plan2 \<Longrightarrow>
     signals (requestGatewayRestart True plan2 cfg2 (requestGatewayRestart True plan1 cfg1 st))
       = signals st \<and>
     deferred (requestGatewayRestart True plan2 cfg2 (requestGatewayRestart True plan1 cfg1 st))
       = Some (plan2, cfg2) \<and>
     signals (flushDeferredRestart
        (requestGatewayRestart True plan2 cfg2 (requestGatewayRestart True plan1 cfg1 st)))
       = signals st @ [(plan2, cfg2)] \<and>
     deferred (flushDeferredRestart
        (requestGatewayRestart True plan2 cfg2 (requestGatewayRestart True plan1 cfg1 st)))
       = None"
  by (simp add: requestGatewayRestart_def flushDeferredRestart_def)

theorem deferred_restart_latest_wins_witness:
  "restartGateway (makePlan [''first change'']) \<and> restartGateway (makePlan [''second change'']) \<and>
   signals (flushDeferredRestart
      (requestGatewayRestart True (makePlan [''second change'']) ()
         (requestGatewayRestart True (makePlan [''first change'']) () new_coordinator)))
     = [(makePlan [''second change''], ())]"
  using deferred_restart_latest_wins
          [of "makePlan [''first change'']" "makePlan [''second change'']" "()" "()"
              new_coordinator]
  by (simp add: makePlan_def new_coordinator_def)

text \<open>
  C6. \<open>flushDeferredRestart\<close> is idempotent. After one deferred request, two flushes in
  a row emit exactly one signal: the first empties the held state and signals, the second
  finds it empty and changes nothing. A flush with nothing held, as in a coordinator that
  never deferred anything, emits no signal and changes nothing.
\<close>

theorem flush_deferred_restart_idempotent:
  "flushDeferredRestart (flushDeferredRestart st) = flushDeferredRestart st \<and>
   (restartGateway plan \<longrightarrow>
      signals (flushDeferredRestart (requestGatewayRestart True plan cfg st))
        = signals st @ [(plan, cfg)] \<and>
      deferred (flushDeferredRestart (requestGatewayRestart True plan cfg st)) = None \<and>
      signals (flushDeferredRestart (flushDeferredRestart
          (requestGatewayRestart True plan cfg st)))
        = signals st @ [(plan, cfg)]) \<and>
   (deferred st = None \<longrightarrow> flushDeferredRestart st = st) \<and>
   flushDeferredRestart new_coordinator = (new_coordinator :: 'c coordinator)"
  by (simp add: requestGatewayRestart_def flushDeferredRestart_def new_coordinator_def
      split: option.splits)

theorem flush_deferred_restart_idempotent_witness:
  "restartGateway (makePlan [''gateway.mode changed'']) \<and>
   deferred (new_coordinator :: unit coordinator) = None \<and>
   signals (flushDeferredRestart (flushDeferredRestart
      (requestGatewayRestart True (makePlan [''gateway.mode changed'']) () new_coordinator)))
     = [(makePlan [''gateway.mode changed''], ())] \<and>
   signals (flushDeferredRestart (new_coordinator :: unit coordinator)) = []"
  using flush_deferred_restart_idempotent
          [of new_coordinator "makePlan [''gateway.mode changed'']" "()"]
  by (simp add: makePlan_def new_coordinator_def requestGatewayRestart_def
      flushDeferredRestart_def)

section \<open>Properties of the terminal session manager\<close>

subsection \<open>What \<open>destroySession\<close> and \<open>resetIdleTimer\<close> change\<close>

lemma destroySession_activeSession:
  "activeSession (destroySession a w) =
     (case activeSession w of
        None \<Rightarrow> None
      | Some b \<Rightarrow> if id_t (sessions w b) = id_t (sessions w a) then None else Some b)"
  by (simp add: destroySession_def clearTimeout_def pty_kill_def broadcast_def Let_def
      split: option.splits)

lemma destroySession_active_None:
  "activeSession w = Some a \<Longrightarrow> activeSession (destroySession a w) = None"
  by (simp add: destroySession_activeSession)

lemma destroySession_effects:
  "effects (destroySession a w) =
     effects w @ [PtyKill (pty (sessions w a)), Broadcast (TerminalClosed (id_t (sessions w a)))]"
  by (simp add: destroySession_def clearTimeout_def pty_kill_def broadcast_def Let_def
      split: option.splits)

lemma destroySession_timers:
  "timers (destroySession a w) = filter (\<lambda>t. fst t \<noteq> idleTimer (sessions w a)) (timers w)"
  by (simp add: destroySession_def clearTimeout_def pty_kill_def broadcast_def Let_def
      split: option.splits)

lemma destroySession_ptys:
  "ptys (destroySession a w) =
     (ptys w)(pty (sessions w a) := (ptys w (pty (sessions w a)))\<lparr>alive := False\<rparr>)"
  by (simp add: destroySession_def clearTimeout_def pty_kill_def broadcast_def Let_def
      split: option.splits)

lemma destroySession_frame:
  "sessions (destroySession a w) = sessions w"
  "nextRef (destroySession a w) = nextRef w"
  "nextTimer (destroySession a w) = nextTimer w"
  "nextPty (destroySession a w) = nextPty w"
  "clock (destroySession a w) = clock w"
  by (simp_all add: destroySession_def clearTimeout_def pty_kill_def broadcast_def Let_def
      split: option.splits)

lemma resetIdleTimer_timers:
  "timers (resetIdleTimer a w) =
     filter (\<lambda>t. fst t \<noteq> idleTimer (sessions w a)) (timers w)
       @ [(nextTimer w, clock w + IDLE_TIMEOUT_MS, IdleExpire a)]"
  by (simp add: resetIdleTimer_def clearTimeout_def setTimeout_def Let_def)

lemma resetIdleTimer_sessions:
  "sessions (resetIdleTimer a w) = (sessions w)(a := (sessions w a)\<lparr>idleTimer := nextTimer w\<rparr>)"
  by (simp add: resetIdleTimer_def clearTimeout_def setTimeout_def Let_def)

lemma resetIdleTimer_frame:
  "activeSession (resetIdleTimer a w) = activeSession w"
  "nextRef (resetIdleTimer a w) = nextRef w"
  "nextTimer (resetIdleTimer a w) = Suc (nextTimer w)"
  "nextPty (resetIdleTimer a w) = nextPty w"
  "clock (resetIdleTimer a w) = clock w"
  "ptys (resetIdleTimer a w) = ptys w"
  "effects (resetIdleTimer a w) = effects w"
  by (simp_all add: resetIdleTimer_def clearTimeout_def setTimeout_def Let_def)

subsection \<open>\<open>terminal.open\<close>, path by path\<close>


lemma close_previous_activeSession: "activeSession (close_previous w) = None"
  by (simp add: close_previous_def destroySession_active_None split: option.splits)

lemma close_previous_frame:
  "sessions (close_previous w) = sessions w"
  "nextRef (close_previous w) = nextRef w"
  "nextTimer (close_previous w) = nextTimer w"
  "nextPty (close_previous w) = nextPty w"
  "clock (close_previous w) = clock w"
  by (simp_all add: close_previous_def destroySession_frame split: option.splits)

lemma terminal_open_throws:
  "terminal_open p uuid (SpawnThrows err) w =
     (Respond False None (Some (errorShape UNAVAILABLE (''failed to spawn PTY: '' @ err))),
      close_previous w)"
  by (simp add: terminal_open_def close_previous_def Let_def)


lemma terminal_open_ok_effects:
  "effects (snd (terminal_open p uuid SpawnOk w)) =
     effects (close_previous w) @ [Spawned (open_cols p) (open_rows p) (nextPty w)]"
  by (simp add: terminal_open_def close_previous_def Let_def setTimeout_def
      resetIdleTimer_frame destroySession_frame split: prod.splits option.splits)

lemma terminal_open_ok_activeSession:
  "activeSession (snd (terminal_open p uuid SpawnOk w)) = Some (nextRef w)"
  by (simp add: terminal_open_def close_previous_def Let_def setTimeout_def
      resetIdleTimer_frame destroySession_frame split: prod.splits option.splits)

lemma terminal_open_ok_session:
  "sessions (snd (terminal_open p uuid SpawnOk w)) (nextRef w) =
     \<lparr>id_t = uuid, pty = nextPty w, idleTimer = Suc (nextTimer w)\<rparr>"
  by (simp add: terminal_open_def close_previous_def Let_def setTimeout_def
      resetIdleTimer_sessions destroySession_frame split: prod.splits option.splits)

lemma terminal_open_ok_timers:
  "timers (snd (terminal_open p uuid SpawnOk w)) =
     filter (\<lambda>t. fst t \<noteq> nextTimer w) (timers (close_previous w))
       @ [(Suc (nextTimer w), clock w + IDLE_TIMEOUT_MS, IdleExpire (nextRef w))]"
  by (simp add: terminal_open_def close_previous_def Let_def setTimeout_def
      resetIdleTimer_timers destroySession_frame split: prod.splits option.splits)

lemma terminal_open_ok_ptys:
  "ptys (snd (terminal_open p uuid SpawnOk w)) =
     (ptys (close_previous w))
       (nextPty w := \<lparr>alive = True, onData = Some (nextRef w), onExit = Some (nextRef w)\<rparr>)"
  by (simp add: terminal_open_def close_previous_def Let_def setTimeout_def
      resetIdleTimer_frame destroySession_frame split: prod.splits option.splits)

subsection \<open>The example world\<close>

lemma example_open_world_eq:
  "example_open_world =
     \<lparr>activeSession = Some 0,
      sessions = (\<lambda>_. \<lparr>id_t = [], pty = 0, idleTimer = 0\<rparr>)
                   (0 := \<lparr>id_t = ''a'', pty = 0, idleTimer = Suc 0\<rparr>),
      nextRef = Suc 0,
      timers = [(Suc 0, 600000, IdleExpire 0)],
      nextTimer = Suc (Suc 0),
      clock = 0,
      ptys = (\<lambda>_. \<lparr>alive = False, onData = None, onExit = None\<rparr>)
               (0 := \<lparr>alive = True, onData = Some 0, onExit = Some 0\<rparr>),
      nextPty = Suc 0,
      effects = [Spawned (Fin 1) (Fin 1) 0]\<rparr>"
  by (simp add: example_open_world_def example_params_def terminal_open_def initial_world_def
      open_cols_def open_rows_def setTimeout_def resetIdleTimer_def clearTimeout_def
      IDLE_TIMEOUT_MS_def Let_def)

subsection \<open>\<open>terminal.close\<close>\<close>

text \<open>
  C2, as the claim states it, fails where the session id is absent: the handler answers
  with the error \<open>sessionId required\<close>, not with success.
\<close>

theorem close_absent_id_counterexample:
  "terminal_close \<lparr>sessionId = JUndefined, data = JUndefined, cols = JUndefined, rows = JUndefined\<rparr>
     initial_world
   = (Respond False None (Some (INVALID_REQUEST, ''sessionId required'')), initial_world)"
  by (simp add: terminal_close_def errorShape_def)

text \<open>
  C2, amended. A \<open>terminal.close\<close> whose session id is present (truthy) but is not the
  id of the active session, or that finds no session at all, answers success and leaves
  the world as it was: no session destroyed, no timer touched, nothing broadcast. A
  \<open>terminal.close\<close> whose session id is missing (or otherwise falsy, such as the empty
  string) answers with the invalid-request error \<open>sessionId required\<close>, and also leaves
  the world as it was.
\<close>

theorem close_unknown_session_no_effect:
  "(truthy (sessionId p) \<and>
      (\<forall>a. activeSession w = Some a \<longrightarrow> JStr (id_t (sessions w a)) \<noteq> sessionId p)
    \<longrightarrow> terminal_close p w = (Respond True None None, w)) \<and>
   (\<not> truthy (sessionId p)
    \<longrightarrow> terminal_close p w =
          (Respond False None (Some (errorShape INVALID_REQUEST ''sessionId required'')), w))"
  by (auto simp: terminal_close_def split: option.splits)

theorem close_unknown_session_no_effect_witness:
  "truthy (JStr ''b'') \<and> activeSession example_open_world = Some 0 \<and>
   JStr (id_t (sessions example_open_world 0)) \<noteq> JStr ''b'' \<and>
   terminal_close (example_params\<lparr>sessionId := JStr ''b''\<rparr>) example_open_world
     = (Respond True None None, example_open_world) \<and>
   \<not> truthy JUndefined \<and>
   terminal_close (example_params\<lparr>sessionId := JUndefined\<rparr>) example_open_world
     = (Respond False None (Some (INVALID_REQUEST, ''sessionId required'')), example_open_world)"
  using close_unknown_session_no_effect
          [of "example_params\<lparr>sessionId := JStr ''b''\<rparr>" example_open_world]
        close_unknown_session_no_effect
          [of "example_params\<lparr>sessionId := JUndefined\<rparr>" example_open_world]
  by (simp add: example_open_world_eq errorShape_def)

subsection \<open>Dimensions\<close>

text \<open>
  The handlers test \<^verbatim>\<open>typeof v === "number"\<close> and \<^verbatim>\<open>typeof v === "string"\<close>; the model
  matches on the constructor, which is the same test.
\<close>

lemma typeof_number: "typeof v = TNumber \<longleftrightarrow> (\<exists>n. v = JNum n)"
  by (cases v) simp_all

lemma typeof_string: "typeof v = TString \<longleftrightarrow> (\<exists>s. v = JStr s)"
  by (cases v) simp_all






subsection \<open>Spawn failure\<close>

text \<open>
  C8, as the claim states it, fails when a session is active: the handler destroys it
  before it tries to spawn, so after the failed spawn the manager has gone from Open to
  Idle, the old PTY has been killed and \<open>terminal.closed\<close> has been broadcast.
\<close>

theorem spawn_failure_changes_open_state_counterexample:
  "activeSession example_open_world = Some 0 \<and>
   activeSession (snd (terminal_open example_params ''b'' (SpawnThrows ''ENOENT'') example_open_world))
     = None \<and>
   snd (terminal_open example_params ''b'' (SpawnThrows ''ENOENT'') example_open_world)
     \<noteq> example_open_world \<and>
   timers example_open_world = [(Suc 0, 600000, IdleExpire 0)] \<and>
   timers (snd (terminal_open example_params ''b'' (SpawnThrows ''ENOENT'') example_open_world)) = [] \<and>
   effects (snd (terminal_open example_params ''b'' (SpawnThrows ''ENOENT'') example_open_world))
     = effects example_open_world @ [PtyKill 0, Broadcast (TerminalClosed ''a'')]"
proof -
  let ?w' = "snd (terminal_open example_params ''b'' (SpawnThrows ''ENOENT'') example_open_world)"
  have a: "activeSession example_open_world = Some 0"
    by (simp add: example_open_world_eq)
  have b: "activeSession ?w' = None"
    by (simp add: terminal_open_throws close_previous_activeSession)
  have c: "?w' \<noteq> example_open_world"
  proof
    assume "?w' = example_open_world"
    then have "activeSession ?w' = activeSession example_open_world" by simp
    with a b show False by simp
  qed
  have d: "timers example_open_world = [(Suc 0, 600000, IdleExpire 0)]"
    by (simp add: example_open_world_eq)
  have e: "timers ?w' = []"
    by (simp add: terminal_open_throws close_previous_def a destroySession_timers)
       (simp add: example_open_world_eq)
  have f: "effects ?w' = effects example_open_world @ [PtyKill 0, Broadcast (TerminalClosed ''a'')]"
    by (simp add: terminal_open_throws close_previous_def a destroySession_effects)
       (simp add: example_open_world_eq)
  from a b c d e f show ?thesis by simp
qed

text \<open>
  C8, amended. When \<open>spawn\<close> throws, \<open>terminal.open\<close> answers with the error
  \<open>UNAVAILABLE\<close> and the manager is Idle afterwards. No session is created: no session
  object is allocated, no timer is set (the pending timers are among those pending
  before), no PTY is allocated and no callback is subscribed. When the manager was Idle
  before the call, the world is unchanged. When a session was active, that session has
  been destroyed first, as any \<open>terminal.open\<close> does: its PTY killed and
  \<open>terminal.closed\<close> broadcast.
\<close>

theorem spawn_failure_leaves_idle:
  "terminal_open p uuid (SpawnThrows err) w = (resp, w') \<Longrightarrow>
     resp = Respond False None (Some (errorShape UNAVAILABLE (''failed to spawn PTY: '' @ err))) \<and>
     activeSession w' = None \<and>
     sessions w' = sessions w \<and> nextRef w' = nextRef w \<and>
     nextTimer w' = nextTimer w \<and> set (timers w') \<subseteq> set (timers w) \<and>
     nextPty w' = nextPty w \<and>
     (\<forall>h. onData (ptys w' h) = onData (ptys w h) \<and> onExit (ptys w' h) = onExit (ptys w h)) \<and>
     (activeSession w = None \<longrightarrow> w' = w) \<and>
     (\<forall>a. activeSession w = Some a \<longrightarrow>
        w' = destroySession a w \<and>
        \<not> alive (ptys w' (pty (sessions w a))) \<and>
        effects w' = effects w @ [PtyKill (pty (sessions w a)),
                                  Broadcast (TerminalClosed (id_t (sessions w a)))])"
proof -
  assume "terminal_open p uuid (SpawnThrows err) w = (resp, w')"
  then have resp: "resp = Respond False None
                      (Some (errorShape UNAVAILABLE (''failed to spawn PTY: '' @ err)))"
    and w': "w' = close_previous w"
    by (simp_all add: terminal_open_throws)
  have t: "set (timers w') \<subseteq> set (timers w)"
    by (auto simp: w' close_previous_def destroySession_timers split: option.splits)
  have s: "\<forall>h. onData (ptys w' h) = onData (ptys w h) \<and> onExit (ptys w' h) = onExit (ptys w h)"
    by (simp add: w' close_previous_def destroySession_ptys split: option.splits)
  have idle: "activeSession w = None \<longrightarrow> w' = w"
    by (simp add: w' close_previous_def)
  have opn: "\<forall>a. activeSession w = Some a \<longrightarrow>
        w' = destroySession a w \<and>
        \<not> alive (ptys w' (pty (sessions w a))) \<and>
        effects w' = effects w @ [PtyKill (pty (sessions w a)),
                                  Broadcast (TerminalClosed (id_t (sessions w a)))]"
    by (simp add: w' close_previous_def destroySession_ptys destroySession_effects)
  have act: "activeSession w' = None"
    by (simp add: w' close_previous_activeSession)
  have fr: "sessions w' = sessions w" "nextRef w' = nextRef w" "nextTimer w' = nextTimer w"
    "nextPty w' = nextPty w"
    by (simp_all add: w' close_previous_frame)
  from resp act fr t s idle opn show ?thesis
    by blast
qed

theorem spawn_failure_leaves_idle_witness:
  "terminal_open example_params ''b'' (SpawnThrows ''ENOENT'') initial_world
     = (Respond False None (Some (UNAVAILABLE, ''failed to spawn PTY: ENOENT'')), initial_world) \<and>
   activeSession initial_world = None \<and>
   activeSession example_open_world = Some 0 \<and>
   fst (terminal_open example_params ''b'' (SpawnThrows ''ENOENT'') example_open_world)
     = Respond False None (Some (UNAVAILABLE, ''failed to spawn PTY: ENOENT'')) \<and>
   activeSession (snd (terminal_open example_params ''b'' (SpawnThrows ''ENOENT'') example_open_world))
     = None"
  using spawn_failure_leaves_idle
          [of example_params "''b''" "''ENOENT''" initial_world
              "fst (terminal_open example_params ''b'' (SpawnThrows ''ENOENT'') initial_world)"
              "snd (terminal_open example_params ''b'' (SpawnThrows ''ENOENT'') initial_world)"]
        spawn_failure_leaves_idle
          [of example_params "''b''" "''ENOENT''" example_open_world
              "fst (terminal_open example_params ''b'' (SpawnThrows ''ENOENT'') example_open_world)"
              "snd (terminal_open example_params ''b'' (SpawnThrows ''ENOENT'') example_open_world)"]
  by (simp add: example_open_world_eq errorShape_def terminal_open_throws close_previous_def
      destroySession_def clearTimeout_def pty_kill_def broadcast_def Let_def initial_world_def)

subsection \<open>A sequence of opens keeps at most one session\<close>

lemma terminal_open_ok_counters:
  "nextPty (snd (terminal_open p uuid SpawnOk w)) = Suc (nextPty w)"
  "nextRef (snd (terminal_open p uuid SpawnOk w)) = Suc (nextRef w)"
  "nextTimer (snd (terminal_open p uuid SpawnOk w)) = Suc (Suc (nextTimer w))"
  "clock (snd (terminal_open p uuid SpawnOk w)) = clock w"
  by (simp_all add: terminal_open_def close_previous_def Let_def setTimeout_def
      resetIdleTimer_frame destroySession_frame split: prod.splits option.splits)

lemma session_inv_initial: "session_inv initial_world"
  by (simp add: session_inv_def initial_world_def)

lemma filter_all_same:
  "\<forall>t \<in> set ts. fst t = h \<Longrightarrow> filter (\<lambda>t. fst t \<noteq> h) ts = []"
  by (induction ts) auto

lemma close_previous_timers:
  assumes "session_inv w"
  shows "timers (close_previous w) = []"
proof (cases "activeSession w")
  case None
  with assms have "timers w = []"
    by (cases "timers w") (auto simp: session_inv_def)
  with None show ?thesis
    by (simp add: close_previous_def)
next
  case (Some a)
  with assms have "\<forall>t \<in> set (timers w). fst t = idleTimer (sessions w a)"
    by (auto simp: session_inv_def)
  then have "filter (\<lambda>t. fst t \<noteq> idleTimer (sessions w a)) (timers w) = []"
    by (rule filter_all_same)
  with Some show ?thesis
    by (simp add: close_previous_def destroySession_timers)
qed

lemma close_previous_no_live_pty:
  assumes "session_inv w"
  shows "\<not> alive (ptys (close_previous w) h)"
proof (cases "activeSession w")
  case None
  with assms show ?thesis
    by (auto simp: session_inv_def close_previous_def)
next
  case (Some a)
  with assms have "alive (ptys w h) \<Longrightarrow> h = pty (sessions w a)"
    by (auto simp: session_inv_def)
  with Some show ?thesis
    by (auto simp: close_previous_def destroySession_ptys)
qed

lemma close_previous_effects:
  "effects (close_previous w) =
     effects w @
       (case activeSession w of
          None \<Rightarrow> []
        | Some a \<Rightarrow> [PtyKill (pty (sessions w a)), Broadcast (TerminalClosed (id_t (sessions w a)))])"
  by (simp add: close_previous_def destroySession_effects split: option.splits)

lemma session_inv_close_previous:
  assumes "session_inv w"
  shows "session_inv (close_previous w)"
  using close_previous_timers [OF assms] close_previous_no_live_pty [OF assms]
  by (simp add: session_inv_def close_previous_activeSession)

lemma terminal_open_ok_timers_inv:
  assumes "session_inv w"
  shows "timers (snd (terminal_open p uuid SpawnOk w)) =
           [(Suc (nextTimer w), clock w + IDLE_TIMEOUT_MS, IdleExpire (nextRef w))]"
  by (simp add: terminal_open_ok_timers close_previous_timers [OF assms])

lemma terminal_open_ok_live:
  assumes "session_inv w"
  shows "alive (ptys (snd (terminal_open p uuid SpawnOk w)) h) \<longleftrightarrow> h = nextPty w"
  by (simp add: terminal_open_ok_ptys close_previous_no_live_pty [OF assms])

lemma session_inv_terminal_open:
  assumes "session_inv w"
  shows "session_inv (snd (terminal_open p uuid so w))"
proof (cases so)
  case SpawnOk
  show ?thesis
    unfolding session_inv_def SpawnOk
    by (simp add: terminal_open_ok_timers_inv [OF assms] terminal_open_ok_live [OF assms]
        terminal_open_ok_activeSession terminal_open_ok_session terminal_open_ok_counters)
next
  case (SpawnThrows err)
  with session_inv_close_previous [OF assms] show ?thesis
    by (simp add: terminal_open_throws)
qed

lemma session_inv_opens:
  "session_inv w \<Longrightarrow> session_inv (opens cs w)"
  by (induction cs w rule: opens.induct) (simp_all add: session_inv_terminal_open)

subsection \<open>Successful activity, and the event loop with one timer\<close>



text \<open>
  What a reset does to a world in which at most one session exists, when other calls
  have only added effects in between: the one pending timer is the new one, due a full
  window from now.
\<close>

lemma reset_after_effects:
  assumes inv: "session_inv w" and a: "activeSession w = Some a"
    and w': "w' = resetIdleTimer a (w\<lparr>effects := es\<rparr>)"
  shows "activeSession w' = Some a"
    and "sessions w' = (sessions w)(a := (sessions w a)\<lparr>idleTimer := nextTimer w\<rparr>)"
    and "timers w' = [(nextTimer w, clock w + IDLE_TIMEOUT_MS, IdleExpire a)]"
    and "ptys w' = ptys w" and "clock w' = clock w" and "effects w' = es"
proof -
  from inv a have "\<forall>t \<in> set (timers w). fst t = idleTimer (sessions w a)"
    by (auto simp: session_inv_def)
  then have "filter (\<lambda>t. fst t \<noteq> idleTimer (sessions w a)) (timers w) = []"
    by (rule filter_all_same)
  then show "timers w' = [(nextTimer w, clock w + IDLE_TIMEOUT_MS, IdleExpire a)]"
    by (simp add: w' resetIdleTimer_timers)
  show "activeSession w' = Some a" "ptys w' = ptys w" "clock w' = clock w" "effects w' = es"
    by (simp_all add: w' resetIdleTimer_frame a)
  show "sessions w' = (sessions w)(a := (sessions w a)\<lparr>idleTimer := nextTimer w\<rparr>)"
    by (simp add: w' resetIdleTimer_sessions)
qed

text \<open>The event loop with a single timer pending.\<close>

lemma advance_single_early:
  assumes "timers w = [(h, due, cb)]" and "t < due"
  shows "advance t w = w\<lparr>clock := max (clock w) t\<rparr>"
  using assms by (simp add: advance_def)

lemma advance_single_due:
  assumes "timers w = [(h, due, cb)]" and "due \<le> t"
  shows "advance t w =
           (run_callback cb (w\<lparr>timers := [], clock := max (clock w) due\<rparr>))
             \<lparr>clock := max (clock (run_callback cb (w\<lparr>timers := [], clock := max (clock w) due\<rparr>))) t\<rparr>"
  using assms by (simp add: advance_def Let_def)

subsection \<open>At most one session in every reachable state\<close>

lemma inv_frame:
  "session_inv (w\<lparr>effects := es\<rparr>) = session_inv w"
  "session_inv (w\<lparr>clock := c\<rparr>) = session_inv w"
  "store_inv (w\<lparr>effects := es\<rparr>) = store_inv w"
  "store_inv (w\<lparr>clock := c\<rparr>) = store_inv w"
  by (simp_all add: session_inv_def store_inv_def)

lemma inv_destroy_active:
  assumes "session_inv w" and "store_inv w" and a: "activeSession w = Some a"
  shows "session_inv (destroySession a w)" and "store_inv (destroySession a w)"
proof -
  from assms have cp: "session_inv (close_previous w)"
    by (simp add: session_inv_close_previous)
  with a show "session_inv (destroySession a w)"
    by (simp add: close_previous_def)
  from assms(2) show "store_inv (destroySession a w)"
    by (simp add: store_inv_def destroySession_active_None [OF a] destroySession_frame
        destroySession_ptys)
qed

lemma resetIdleTimer_fields:
  "id_t (sessions (resetIdleTimer a w) r) = id_t (sessions w r)"
  "pty (sessions (resetIdleTimer a w) r) = pty (sessions w r)"
  "idleTimer (sessions (resetIdleTimer a w) a) = nextTimer w"
  by (simp_all add: resetIdleTimer_sessions)

lemma inv_reset:
  assumes "session_inv w" and "store_inv w" and a: "activeSession w = Some a"
  shows "session_inv (resetIdleTimer a w)" and "store_inv (resetIdleTimer a w)"
proof -
  have w: "resetIdleTimer a w = resetIdleTimer a (w\<lparr>effects := effects w\<rparr>)"
    by simp
  note r = reset_after_effects [OF assms(1) a w]
  from assms(1) a show "session_inv (resetIdleTimer a w)"
    by (simp add: session_inv_def r(3) resetIdleTimer_frame resetIdleTimer_fields)
  from assms(2) show "store_inv (resetIdleTimer a w)"
    by (simp add: store_inv_def resetIdleTimer_frame resetIdleTimer_fields)
qed

lemma store_inv_destroy:
  assumes "store_inv w"
  shows "store_inv (destroySession a w)"
  using assms
  by (simp add: store_inv_def destroySession_activeSession destroySession_frame
      destroySession_ptys split: option.splits)

lemma store_inv_close_previous:
  "store_inv w \<Longrightarrow> store_inv (close_previous w)"
  by (simp add: close_previous_def store_inv_destroy split: option.splits)

lemma close_previous_onExit:
  "onExit (ptys (close_previous w) h) = onExit (ptys w h)"
  by (simp add: close_previous_def destroySession_ptys split: option.splits)

lemma terminal_open_ok_sessions:
  "sessions (snd (terminal_open p uuid SpawnOk w)) =
     (sessions w)(nextRef w := \<lparr>id_t = uuid, pty = nextPty w, idleTimer = Suc (nextTimer w)\<rparr>)"
  by (simp add: terminal_open_def close_previous_def Let_def setTimeout_def
      resetIdleTimer_sessions destroySession_frame split: prod.splits option.splits)

lemma store_inv_terminal_open:
  assumes inv: "store_inv w"
    and fresh: "\<forall>r. r < nextRef w \<longrightarrow> id_t (sessions w r) \<noteq> uuid"
  shows "store_inv (snd (terminal_open p uuid so w))"
proof (cases so)
  case SpawnOk
  let ?w' = "snd (terminal_open p uuid SpawnOk w)"
  have ids: "r = r'"
    if "r < Suc (nextRef w)" "r' < Suc (nextRef w)"
      "id_t (sessions ?w' r) = id_t (sessions ?w' r')" for r r'
  proof (cases "r = nextRef w"; cases "r' = nextRef w")
    assume "r = nextRef w" "r' = nextRef w"
    then show ?thesis by simp
  next
    assume "r = nextRef w" "r' \<noteq> nextRef w"
    with that fresh show ?thesis
      by (auto simp: terminal_open_ok_sessions less_Suc_eq)
  next
    assume "r \<noteq> nextRef w" "r' = nextRef w"
    with that fresh show ?thesis
      by (auto simp: terminal_open_ok_sessions less_Suc_eq)
  next
    assume "r \<noteq> nextRef w" "r' \<noteq> nextRef w"
    with that inv show ?thesis
      by (simp add: terminal_open_ok_sessions less_Suc_eq store_inv_def)
  qed
  have subs: "s < Suc (nextRef w) \<and> pty (sessions ?w' s) = h"
    if "onExit (ptys ?w' h) = Some s" for h s
  proof (cases "h = nextPty w")
    case True
    with that show ?thesis
      by (simp add: terminal_open_ok_ptys terminal_open_ok_sessions)
  next
    case False
    with that have "onExit (ptys w h) = Some s"
      by (simp add: terminal_open_ok_ptys close_previous_onExit)
    with inv have "s < nextRef w" "pty (sessions w s) = h"
      by (simp_all add: store_inv_def)
    then show ?thesis
      by (simp add: terminal_open_ok_sessions)
  qed
  from ids subs show ?thesis
    unfolding SpawnOk store_inv_def
    by (simp add: terminal_open_ok_activeSession terminal_open_ok_counters)
next
  case (SpawnThrows err)
  with inv show ?thesis
    by (simp add: terminal_open_throws store_inv_close_previous)
qed

lemma terminal_input_cases:
  "snd (terminal_input p w) = w \<or>
   (\<exists>a es. activeSession w = Some a \<and>
      snd (terminal_input p w) = resetIdleTimer a (w\<lparr>effects := es\<rparr>))"
  by (auto simp: terminal_input_def pty_write_def Let_def
      split: bool.splits jsval.splits option.splits)

lemma terminal_resize_cases:
  "snd (terminal_resize p ro w) = w \<or>
   (\<exists>a es. activeSession w = Some a \<and>
      snd (terminal_resize p ro w) = resetIdleTimer a (w\<lparr>effects := es\<rparr>))"
  by (auto simp: terminal_resize_def pty_resize_def Let_def
      split: bool.splits jsval.splits option.splits call_outcome.splits)

text \<open>
  A \<open>terminal.resize\<close> whose \<^verbatim>\<open>pty.resize\<close> would throw never answers success and leaves
  the world as it was: no resize reaches the PTY and the idle timer is not reset.
\<close>

lemma terminal_resize_throws:
  "fst (terminal_resize p (Throws err) w) \<noteq> Respond True None None"
  "snd (terminal_resize p (Throws err) w) = w"
  by (simp_all add: terminal_resize_def split: bool.splits jsval.splits option.splits)

lemma terminal_close_cases:
  "snd (terminal_close p w) = w \<or>
   (\<exists>a. activeSession w = Some a \<and> snd (terminal_close p w) = destroySession a w)"
  by (auto simp: terminal_close_def split: option.splits)

lemma inv_reset_after_effects:
  assumes "session_inv w" and "store_inv w" and "activeSession w = Some a"
  shows "session_inv (resetIdleTimer a (w\<lparr>effects := es\<rparr>))"
    and "store_inv (resetIdleTimer a (w\<lparr>effects := es\<rparr>))"
  using assms inv_reset [of "w\<lparr>effects := es\<rparr>" a]
  by (simp_all add: inv_frame)

lemma inv_terminal_input:
  assumes "session_inv w" and "store_inv w"
  shows "session_inv (snd (terminal_input p w))" and "store_inv (snd (terminal_input p w))"
  using terminal_input_cases [of p w] assms inv_reset_after_effects [OF assms]
  by auto

lemma inv_terminal_resize:
  assumes "session_inv w" and "store_inv w"
  shows "session_inv (snd (terminal_resize p ro w))"
    and "store_inv (snd (terminal_resize p ro w))"
  using terminal_resize_cases [of p ro w] assms inv_reset_after_effects [OF assms]
  by auto

lemma inv_terminal_close:
  assumes "session_inv w" and "store_inv w"
  shows "session_inv (snd (terminal_close p w))" and "store_inv (snd (terminal_close p w))"
  using terminal_close_cases [of p w] assms inv_destroy_active [OF assms]
  by auto

lemma inv_pty_data:
  assumes "session_inv w" and "store_inv w"
  shows "session_inv (pty_data h d w)" and "store_inv (pty_data h d w)"
  using assms
  by (simp_all add: pty_data_def broadcast_def inv_frame split: option.splits)

lemma inv_shell_dead:
  assumes "session_inv w" and "store_inv w"
  shows "session_inv (w\<lparr>ptys := (ptys w)(h := (ptys w h)\<lparr>alive := False\<rparr>)\<rparr>)"
    and "store_inv (w\<lparr>ptys := (ptys w)(h := (ptys w h)\<lparr>alive := False\<rparr>)\<rparr>)"
  using assms by (simp_all add: session_inv_def store_inv_def)

lemma inv_cleanup:
  assumes "session_inv w" and "store_inv w"
  shows "session_inv (cleanupTerminalSessions w)" and "store_inv (cleanupTerminalSessions w)"
proof -
  show "store_inv (cleanupTerminalSessions w)"
    using assms(2)
    by (simp add: cleanupTerminalSessions_def store_inv_def clearTimeout_def pty_kill_def
        Let_def split: option.splits)
  show "session_inv (cleanupTerminalSessions w)"
  proof (cases "activeSession w")
    case None
    with assms(1) show ?thesis
      by (simp add: cleanupTerminalSessions_def)
  next
    case (Some a)
    from assms(1) Some have "\<forall>t \<in> set (timers w). fst t = idleTimer (sessions w a)"
      by (auto simp: session_inv_def)
    then have t: "filter (\<lambda>t. fst t \<noteq> idleTimer (sessions w a)) (timers w) = []"
      by (rule filter_all_same)
    from assms(1) Some have "alive (ptys w k) \<Longrightarrow> k = pty (sessions w a)" for k
      by (auto simp: session_inv_def)
    with Some t show ?thesis
      by (auto simp: cleanupTerminalSessions_def session_inv_def clearTimeout_def pty_kill_def
          Let_def)
  qed
qed

lemma pty_exit_frame:
  "sessions (pty_exit h w) = sessions w"
  "nextRef (pty_exit h w) = nextRef w"
  "nextPty (pty_exit h w) = nextPty w"
  "ptys (pty_exit h w) = (ptys w)(h := (ptys w h)\<lparr>alive := False\<rparr>)"
  by (simp_all add: pty_exit_def Let_def clearTimeout_def broadcast_def split: option.splits)

lemma pty_exit_activeSession:
  "activeSession (pty_exit h w) =
     (case onExit (ptys w h) of
        None \<Rightarrow> activeSession w
      | Some s \<Rightarrow>
          (case activeSession w of
             None \<Rightarrow> None
           | Some a \<Rightarrow> if id_t (sessions w a) = id_t (sessions w s) then None else Some a))"
  by (simp add: pty_exit_def Let_def clearTimeout_def broadcast_def split: option.splits)

lemma pty_exit_timers:
  "timers (pty_exit h w) =
     (case onExit (ptys w h) of
        None \<Rightarrow> timers w
      | Some s \<Rightarrow>
          (case activeSession w of
             None \<Rightarrow> timers w
           | Some a \<Rightarrow>
               if id_t (sessions w a) = id_t (sessions w s)
               then filter (\<lambda>t. fst t \<noteq> idleTimer (sessions w s)) (timers w)
               else timers w))"
  by (simp add: pty_exit_def Let_def clearTimeout_def broadcast_def split: option.splits)

lemma inv_pty_exit:
  assumes si: "session_inv w" and st: "store_inv w"
  shows "session_inv (pty_exit h w)" and "store_inv (pty_exit h w)"
proof -
  show "store_inv (pty_exit h w)"
    using st
    by (simp add: store_inv_def pty_exit_frame pty_exit_activeSession split: option.splits)
  show "session_inv (pty_exit h w)"
  proof (cases "\<exists>s a. onExit (ptys w h) = Some s \<and> activeSession w = Some a \<and>
                  id_t (sessions w a) = id_t (sessions w s)")
    case False
    then have same: "activeSession (pty_exit h w) = activeSession w"
      "timers (pty_exit h w) = timers w"
      by (auto simp: pty_exit_activeSession pty_exit_timers split: option.splits)
    from si show ?thesis
      by (simp add: session_inv_def same pty_exit_frame)
  next
    case True
    then obtain s a where s: "onExit (ptys w h) = Some s" and a: "activeSession w = Some a"
      and eq: "id_t (sessions w a) = id_t (sessions w s)"
      by blast
    from st a have "a < nextRef w"
      by (simp add: store_inv_def)
    moreover from st s have "s < nextRef w" and hs: "pty (sessions w s) = h"
      by (simp_all add: store_inv_def)
    ultimately have sa: "s = a"
      using st eq unfolding store_inv_def by blast
    from si a have "\<forall>t \<in> set (timers w). fst t = idleTimer (sessions w a)"
      by (auto simp: session_inv_def)
    then have t: "filter (\<lambda>t. fst t \<noteq> idleTimer (sessions w a)) (timers w) = []"
      by (rule filter_all_same)
    from si a hs sa have live: "alive (ptys w k) \<Longrightarrow> k = h" for k
      by (auto simp: session_inv_def)
    have now: "activeSession (pty_exit h w) = None" "timers (pty_exit h w) = []"
      using s a t by (simp_all add: pty_exit_activeSession pty_exit_timers sa)
    from live show ?thesis
      by (auto simp: session_inv_def now pty_exit_frame)
  qed
qed

lemma inv_advance:
  assumes si: "session_inv w" and st: "store_inv w"
  shows "session_inv (advance t w)" and "store_inv (advance t w)"
proof -
  have "session_inv (advance t w) \<and> store_inv (advance t w)"
  proof (cases "timers w")
    case Nil
    then have "advance t w = w\<lparr>clock := max (clock w) t\<rparr>"
      by (simp add: advance_def)
    with si st show ?thesis
      by (simp add: inv_frame)
  next
    case (Cons x xs)
    with si have xs: "xs = []"
      by (simp add: session_inv_def)
    obtain k due cb where x: "x = (k, due, cb)"
      by (cases x) auto
    from si Cons x obtain a where a: "activeSession w = Some a" and cb: "cb = IdleExpire a"
      by (auto simp: session_inv_def)
    from Cons xs x have tw: "timers w = [(k, due, cb)]"
      by simp
    show ?thesis
    proof (cases "due \<le> t")
      case False
      then have "advance t w = w\<lparr>clock := max (clock w) t\<rparr>"
        using advance_single_early [OF tw] by simp
      with si st show ?thesis
        by (simp add: inv_frame)
    next
      case True
      let ?v = "w\<lparr>timers := [], clock := max (clock w) due\<rparr>"
      have v: "session_inv ?v" "store_inv ?v" "activeSession ?v = Some a"
        using si st a by (simp_all add: session_inv_def store_inv_def)
      have "advance t w =
              (destroySession a ?v)\<lparr>clock := max (clock (destroySession a ?v)) t\<rparr>"
        using advance_single_due [OF tw True] by (simp add: cb)
      with inv_destroy_active [OF v] show ?thesis
        by (simp add: inv_frame)
    qed
  qed
  then show "session_inv (advance t w)" and "store_inv (advance t w)"
    by simp_all
qed

lemma store_inv_initial: "store_inv initial_world"
  by (simp add: store_inv_def initial_world_def)

text \<open>
  In every reachable state at most one session exists, under any interleaving of
  requests, PTY events, timer expiry and cleanup.
\<close>

lemma reachable_inv:
  "reachable w \<Longrightarrow> session_inv w \<and> store_inv w"
proof (induction rule: reachable.induct)
  case reach_initial
  show ?case
    by (simp add: session_inv_initial store_inv_initial)
next
  case (reach_open w uuid p so)
  then show ?case
    by (simp add: session_inv_terminal_open store_inv_terminal_open)
next
  case (reach_input w p)
  then show ?case
    by (simp add: inv_terminal_input)
next
  case (reach_resize w p ro)
  then show ?case
    by (simp add: inv_terminal_resize)
next
  case (reach_close w p)
  then show ?case
    by (simp add: inv_terminal_close)
next
  case (reach_data w h d)
  then show ?case
    by (simp add: inv_pty_data)
next
  case (reach_exit w h)
  then show ?case
    by (simp add: inv_pty_exit)
next
  case (reach_advance w t)
  then show ?case
    by (simp add: inv_advance)
next
  case (reach_cleanup w)
  then show ?case
    by (simp add: inv_cleanup)
qed

subsection \<open>Exclusivity\<close>

text \<open>
  C1, as the claim states it, fails on a call whose spawn fails: after that call no
  session is active, not exactly one. Here the second of two calls fails to spawn, after
  it has destroyed the session of the first.
\<close>

theorem open_sequence_no_session_counterexample:
  "activeSession
     (opens [(example_params, ''a'', SpawnOk), (example_params, ''b'', SpawnThrows ''ENOENT'')]
        initial_world) = None"
  by (simp add: terminal_open_throws close_previous_activeSession)

text \<open>
  C1, amended. At most one session exists in every reachable state, and so after every
  sequence of \<open>terminal.open\<close> calls run from a reachable state \<open>W0\<close> (the initial
  state is one): every live PTY and every pending timer belongs to the session in
  \<open>activeSession\<close>, and at most one timer is pending. In the state \<open>W\<close> after such a
  sequence, one more \<open>terminal.open\<close> leaves exactly one session when its spawn
  succeeds (the new session is active, its PTY is the only live one, its idle timer the
  only pending one) and none when its spawn fails. If a session was active in \<open>W\<close>, the
  call first kills that session's PTY and broadcasts \<open>terminal.closed\<close> for it, and only
  then spawns: the old PTY is dead in the resulting state and is not the new one.
\<close>

theorem open_sequence_exclusive:
  assumes "reachable W0"
    and "W = opens cs W0"
    and "W' = snd (terminal_open p uuid so W)"
  shows "session_inv W0 \<and> session_inv W \<and> session_inv W' \<and>
     (so = SpawnOk \<longrightarrow>
        activeSession W' = Some (nextRef W) \<and>
        pty (sessions W' (nextRef W)) = nextPty W \<and>
        (\<forall>h. alive (ptys W' h) \<longleftrightarrow> h = nextPty W) \<and>
        timers W' = [(Suc (nextTimer W), clock W + IDLE_TIMEOUT_MS, IdleExpire (nextRef W))]) \<and>
     (so \<noteq> SpawnOk \<longrightarrow>
        activeSession W' = None \<and> (\<forall>h. \<not> alive (ptys W' h)) \<and> timers W' = []) \<and>
     (\<forall>a. activeSession W = Some a \<longrightarrow>
        effects W' =
          effects W
            @ [PtyKill (pty (sessions W a)), Broadcast (TerminalClosed (id_t (sessions W a)))]
            @ (case so of
                 SpawnOk \<Rightarrow> [Spawned (open_cols p) (open_rows p) (nextPty W)]
               | SpawnThrows err \<Rightarrow> []) \<and>
        pty (sessions W a) \<noteq> nextPty W \<and>
        \<not> alive (ptys W' (pty (sessions W a))))"
proof -
  from reachable_inv [OF assms(1)] have inv0: "session_inv W0"
    by simp
  have inv: "session_inv W"
    unfolding assms(2) by (rule session_inv_opens [OF inv0])
  have inv': "session_inv W'"
    unfolding assms(3) by (rule session_inv_terminal_open [OF inv])
  have ok: "so = SpawnOk \<longrightarrow>
        activeSession W' = Some (nextRef W) \<and>
        pty (sessions W' (nextRef W)) = nextPty W \<and>
        (\<forall>h. alive (ptys W' h) \<longleftrightarrow> h = nextPty W) \<and>
        timers W' = [(Suc (nextTimer W), clock W + IDLE_TIMEOUT_MS, IdleExpire (nextRef W))]"
    by (simp add: assms(3) terminal_open_ok_activeSession terminal_open_ok_session
        terminal_open_ok_live [OF inv] terminal_open_ok_timers_inv [OF inv])
  have failed: "so \<noteq> SpawnOk \<longrightarrow>
        activeSession W' = None \<and> (\<forall>h. \<not> alive (ptys W' h)) \<and> timers W' = []"
    by (cases so)
       (simp_all add: assms(3) terminal_open_throws close_previous_activeSession
          close_previous_no_live_pty [OF inv] close_previous_timers [OF inv])
  have old: "effects W' =
          effects W
            @ [PtyKill (pty (sessions W a)), Broadcast (TerminalClosed (id_t (sessions W a)))]
            @ (case so of
                 SpawnOk \<Rightarrow> [Spawned (open_cols p) (open_rows p) (nextPty W)]
               | SpawnThrows err \<Rightarrow> []) \<and>
        pty (sessions W a) \<noteq> nextPty W \<and>
        \<not> alive (ptys W' (pty (sessions W a)))"
    if a: "activeSession W = Some a" for a
  proof -
    from inv a have lt: "pty (sessions W a) < nextPty W"
      by (simp add: session_inv_def)
    have eff: "effects W' =
          effects W
            @ [PtyKill (pty (sessions W a)), Broadcast (TerminalClosed (id_t (sessions W a)))]
            @ (case so of
                 SpawnOk \<Rightarrow> [Spawned (open_cols p) (open_rows p) (nextPty W)]
               | SpawnThrows err \<Rightarrow> [])"
      by (cases so)
         (simp_all add: assms(3) terminal_open_ok_effects terminal_open_throws
            close_previous_effects a)
    have dead: "\<not> alive (ptys W' (pty (sessions W a)))"
    proof (cases so)
      case SpawnOk
      with lt show ?thesis
        by (simp add: assms(3) terminal_open_ok_live [OF inv])
    next
      case (SpawnThrows err)
      then show ?thesis
        by (simp add: assms(3) terminal_open_throws close_previous_no_live_pty [OF inv])
    qed
    from lt eff dead show ?thesis by simp
  qed
  from inv0 inv inv' ok failed old show ?thesis by blast
qed

theorem open_sequence_exclusive_witness:
  "reachable initial_world \<and>
   example_open_world = opens [(example_params, ''a'', SpawnOk)] initial_world \<and>
   activeSession example_open_world = Some 0 \<and>
   activeSession (snd (terminal_open example_params ''b'' SpawnOk example_open_world))
     = Some (Suc 0) \<and>
   timers (snd (terminal_open example_params ''b'' SpawnOk example_open_world))
     = [(Suc (Suc (Suc 0)), 600000, IdleExpire (Suc 0))] \<and>
   effects (snd (terminal_open example_params ''b'' SpawnOk example_open_world))
     = [Spawned (Fin 1) (Fin 1) 0, PtyKill 0, Broadcast (TerminalClosed ''a''),
        Spawned (Fin 1) (Fin 1) (Suc 0)] \<and>
   \<not> alive (ptys (snd (terminal_open example_params ''b'' SpawnOk example_open_world)) 0) \<and>
   alive (ptys (snd (terminal_open example_params ''b'' SpawnOk example_open_world)) (Suc 0)) \<and>
   SpawnThrows ''ENOENT'' \<noteq> SpawnOk \<and>
   activeSession (snd (terminal_open example_params ''b'' (SpawnThrows ''ENOENT'') example_open_world))
     = None \<and>
   timers (snd (terminal_open example_params ''b'' (SpawnThrows ''ENOENT'') example_open_world)) = []"
proof -
  have W: "example_open_world = opens [(example_params, ''a'', SpawnOk)] initial_world"
    by (simp add: example_open_world_def)
  have a: "activeSession example_open_world = Some 0"
    by (simp add: example_open_world_eq)
  have n: "nextRef example_open_world = Suc 0" "nextPty example_open_world = Suc 0"
    "nextTimer example_open_world = Suc (Suc 0)" "clock example_open_world = 0"
    "pty (sessions example_open_world 0) = 0" "id_t (sessions example_open_world 0) = ''a''"
    "effects example_open_world = [Spawned (Fin 1) (Fin 1) 0]"
    by (simp_all add: example_open_world_eq)
  have d: "open_cols example_params = Fin 1" "open_rows example_params = Fin 1"
    by (simp_all add: example_params_def open_cols_def open_rows_def)
  from open_sequence_exclusive [OF reach_initial W refl, of example_params "''b''" SpawnOk]
  have "activeSession (snd (terminal_open example_params ''b'' SpawnOk example_open_world))
          = Some (Suc 0)"
    and "timers (snd (terminal_open example_params ''b'' SpawnOk example_open_world))
          = [(Suc (Suc (Suc 0)), 600000, IdleExpire (Suc 0))]"
    and "effects (snd (terminal_open example_params ''b'' SpawnOk example_open_world))
          = [Spawned (Fin 1) (Fin 1) 0, PtyKill 0, Broadcast (TerminalClosed ''a''),
             Spawned (Fin 1) (Fin 1) (Suc 0)]"
    and "\<not> alive (ptys (snd (terminal_open example_params ''b'' SpawnOk example_open_world)) 0)"
    and "alive (ptys (snd (terminal_open example_params ''b'' SpawnOk example_open_world)) (Suc 0))"
    by (simp_all add: a n d IDLE_TIMEOUT_MS_def)
  moreover
  from open_sequence_exclusive
         [OF reach_initial W refl, of example_params "''b''" "SpawnThrows ''ENOENT''"]
  have "activeSession
          (snd (terminal_open example_params ''b'' (SpawnThrows ''ENOENT'') example_open_world))
          = None"
    and "timers
          (snd (terminal_open example_params ''b'' (SpawnThrows ''ENOENT'') example_open_world))
          = []"
    by simp_all
  ultimately show ?thesis using W a reach_initial by simp
qed

subsection \<open>Activity and idle eviction\<close>



end
